theory Spec2Isabelle
  imports Main "HOL-Library.Sublist" "HOL-Library.Word"
begin

section \<open>Strings of the Go standard library used by package ssh\<close>

text \<open>
  A Go string is a sequence of bytes; it is modelled as \<open>string\<close> (a list of 8-bit
  characters). The two quote characters are named, since they cannot be written inside
  a string literal.
\<close>

definition sq :: char where
  "sq = CHR 0x27"

definition dq :: char where
  "dq = CHR 0x22"



text \<open>\<^verbatim>\<open>strings.Contains(s, substr)\<close>: some suffix of \<open>s\<close> starts with \<open>substr\<close>.\<close>

fun Contains :: "string \<Rightarrow> string \<Rightarrow> bool" where
  "Contains [] sub = (sub = [])"
| "Contains (c # cs) sub = (prefix sub (c # cs) \<or> Contains cs sub)"

text \<open>\<^verbatim>\<open>strings.Join(elems, sep)\<close>.\<close>

fun Join :: "string list \<Rightarrow> string \<Rightarrow> string" where
  "Join [] sep = []"
| "Join [x] sep = x"
| "Join (x # y # ys) sep = x @ sep @ Join (y # ys) sep"

text \<open>
  \<^verbatim>\<open>strings.Replace(s, old, new, n)\<close>: the first \<open>n\<close> non-overlapping occurrences
  of \<open>old\<close>, scanned from the left, are replaced by \<open>new\<close>; a negative \<open>n\<close> means no
  limit. Package ssh calls it with the non-empty constants \<^verbatim>\<open>"ssh "\<close> and \<^verbatim>\<open>"'"\<close>
  only; the library's rule for an empty \<open>old\<close> (insertion between runes) is not part
  of this model, which returns \<open>s\<close> there.
\<close>

function Replace :: "string \<Rightarrow> string \<Rightarrow> string \<Rightarrow> int \<Rightarrow> string" where
  "Replace s old new n =
     (if n = 0 \<or> old = [] then s
      else (case s of
              [] \<Rightarrow> []
            | c # cs \<Rightarrow>
                if prefix old s then new @ Replace (drop (length old) s) old new (n - 1)
                else c # Replace cs old new n))"
  by pat_completeness auto
termination
  by (relation "measure (\<lambda>(s, old, new, n). length s)") auto

declare Replace.simps [simp del]

definition ReplaceAll :: "string \<Rightarrow> string \<Rightarrow> string \<Rightarrow> string" where
  "ReplaceAll s old new = Replace s old new (- 1)"

section \<open>Package ssh: running a command list without a pseudo-terminal\<close>

datatype ssh_error =
    NoCommandSpecified
  | NoCommandsSpecified
  | ExecError string

text \<open>
  \<^verbatim>\<open>ConnectWithExec(command)\<close> replaces the process image by \<^verbatim>\<open>$SHELL -c command\<close>.
  Whether the \<^verbatim>\<open>exec\<close> system call succeeds is an input of the model (\<open>exec_ok\<close>);
  \<open>Inr command\<close> stands for the process replaced by a shell running \<open>command\<close>.
\<close>

definition ConnectWithExec :: "bool \<Rightarrow> string \<Rightarrow> ssh_error + string" where
  "ConnectWithExec exec_ok command =
     (if command = [] then Inl NoCommandSpecified
      else if exec_ok then Inr command
      else Inl (ExecError command))"

text \<open>
  The loop of \<^verbatim>\<open>ConnectWithCommands\<close> that finds the first entry containing
  \<^verbatim>\<open>"ssh"\<close>; \<open>- 1\<close> when there is none, as in the source.
\<close>

fun firstSSHIndex_from :: "string list \<Rightarrow> int \<Rightarrow> int" where
  "firstSSHIndex_from [] i = - 1"
| "firstSSHIndex_from (cmd # cmds) i =
     (if Contains cmd ''ssh'' then i else firstSSHIndex_from cmds (i + 1))"

definition firstSSHIndex :: "string list \<Rightarrow> int" where
  "firstSSHIndex commands = firstSSHIndex_from commands 0"

text \<open>
  The loop that builds the remote script: \<open>i\<close> is the index of the entry at the head
  of the list and \<open>n\<close> is \<^verbatim>\<open>len(remoteCommands)\<close>.
\<close>

fun remoteScript_from :: "string list \<Rightarrow> int \<Rightarrow> int \<Rightarrow> string" where
  "remoteScript_from [] i n = []"
| "remoteScript_from (cmd # cmds) i n =
     (if i > 0 then ''; '' else []) @
     (if i = n - 1 \<and> Contains cmd ''ssh'' then ''exec '' else []) @
     cmd @ remoteScript_from cmds (i + 1) n"

definition remoteScript :: "string list \<Rightarrow> string" where
  "remoteScript remoteCommands = remoteScript_from remoteCommands 0 (int (length remoteCommands))"

definition ensure_tt :: "string \<Rightarrow> string" where
  "ensure_tt firstSSH =
     (if \<not> Contains firstSSH '' -tt'' \<and> \<not> Contains firstSSH '' -t ''
      then Replace firstSSH ''ssh '' ''ssh -tt '' 1
      else firstSSH)"

definition escapedScript :: "string \<Rightarrow> string" where
  "escapedScript script = ReplaceAll script [sq] [sq, dq, sq, dq, sq]"

text \<open>
  \<^verbatim>\<open>ConnectWithCommands(commands)\<close>. The result is the list of lines written to the
  standard output and what the final \<^verbatim>\<open>ConnectWithExec\<close> returns.
\<close>

definition ConnectWithCommands :: "bool \<Rightarrow> string list \<Rightarrow> string list \<times> (ssh_error + string)" where
  "ConnectWithCommands exec_ok commands =
     (if length commands = 0 then ([], Inl NoCommandsSpecified)
      else if length commands = 1 then ([], ConnectWithExec exec_ok (commands ! 0))
      else
        let idx = firstSSHIndex commands in
        if idx = - 1 then ([], ConnectWithExec exec_ok (Join commands '' && ''))
        else
          let firstSSH = commands ! nat idx in
          if idx = int (length commands) - 1 then ([], ConnectWithExec exec_ok firstSSH)
          else
            let preCommands = (if idx > 0 then take (nat idx) commands else []);
                remoteCommands = drop (nat idx + 1) commands;
                script = remoteScript remoteCommands;
                sshCommand = ensure_tt firstSSH;
                finalCommand0 = sshCommand @ '' '' @ [sq] @ escapedScript script @ [sq];
                finalCommand =
                  (if length preCommands > 0
                   then Join preCommands '' && '' @ '' && '' @ finalCommand0
                   else finalCommand0)
            in ([''Executing: '' @ finalCommand], ConnectWithExec exec_ok finalCommand))"

section \<open>Package ssh: the directives of the interactive mode\<close>




section \<open>Package ssh: the filter on the pseudo-terminal's output\<close>

type_synonym byte = "8 word"

text \<open>
  \<^verbatim>\<open>TerminalFilter\<close> wraps a reader and keeps a carry-over \<^verbatim>\<open>buffer\<close>. The reader is
  an input of the model: \<open>Read\<close> is given the bytes the wrapped reader delivers.
\<close>

record TerminalFilter =
  buffer :: "byte list"

text \<open>The parameter bytes of a CSI sequence: digits, and the characters \<^verbatim>\<open>; ? = > !\<close> and space.\<close>

definition is_param :: "byte \<Rightarrow> bool" where
  "is_param b =
     ((0x30 \<le> b \<and> b \<le> 0x39) \<or> b = 0x3B \<or> b = 0x3F \<or> b = 0x3D \<or> b = 0x3E \<or>
      b = 0x21 \<or> b = 0x20)"

text \<open>The inner loop over parameter bytes: the first index from \<open>j\<close> on that is no parameter byte.\<close>

function scan_params :: "byte list \<Rightarrow> nat \<Rightarrow> nat" where
  "scan_params buf j =
     (if j < length buf \<and> is_param (buf ! j) then scan_params buf (j + 1) else j)"
  by pat_completeness auto
termination
  by (relation "measure (\<lambda>(buf, j). length buf - j)") auto

text \<open>The inner loop over digits of the fragment check, with its flag \<^verbatim>\<open>hasDigits\<close>.\<close>

function scan_digits :: "byte list \<Rightarrow> nat \<Rightarrow> bool \<Rightarrow> bool \<times> nat" where
  "scan_digits buf j hasDigits =
     (if j < length buf \<and> 0x30 \<le> buf ! j \<and> buf ! j \<le> 0x39 then scan_digits buf (j + 1) True
      else (hasDigits, j))"
  by pat_completeness auto
termination
  by (relation "measure (\<lambda>(buf, j, h). length buf - j)") auto

declare scan_params.simps [simp del] scan_digits.simps [simp del]

lemma scan_params_ge: "j \<le> scan_params buf j"
proof (induction buf j rule: scan_params.induct)
  case (1 buf j)
  then show ?case by (subst scan_params.simps) auto
qed

lemma scan_digits_ge: "j \<le> snd (scan_digits buf j h)"
proof (induction buf j h rule: scan_digits.induct)
  case (1 buf j h)
  then show ?case by (subst scan_digits.simps) auto
qed

text \<open>
  The main loop of \<^verbatim>\<open>Read\<close> over \<^verbatim>\<open>tf.buffer\<close>, from index \<open>i\<close> on. It returns the
  filtered bytes and the value of \<^verbatim>\<open>tf.buffer\<close> when the loop is left: the buffer as
  it was, or its unterminated tail \<^verbatim>\<open>tf.buffer[i:]\<close> after the \<^verbatim>\<open>break\<close>. The nested
  conditions of the source are written as one chain, \<open>csi\<close> being the test for the
  introducer ESC \<^verbatim>\<open>[\<close> at \<open>i\<close>.
\<close>

function filter_loop :: "byte list \<Rightarrow> nat \<Rightarrow> byte list \<Rightarrow> byte list \<times> byte list" where
  "filter_loop buf i filtered =
     (if \<not> i < length buf then (filtered, buf)
      else
        let csi = (i + 1 < length buf \<and> buf ! i = 0x1B \<and> buf ! (i + 1) = 0x5B);
            j = scan_params buf (i + 2)
        in
        if csi \<and> j < length buf \<and> (buf ! j = 0x52 \<or> buf ! j = 0x63 \<or> buf ! j = 0x6E) then
          filter_loop buf (j + 1) filtered
        else if csi \<and> j < length buf \<and> 0x40 \<le> buf ! j \<and> buf ! j \<le> 0x7E then
          filter_loop buf (j + 1) (filtered @ take (j + 1 - i) (drop i buf))
        else if csi \<and> j \<ge> length buf then
          (filtered, drop i buf)
        else
          let hasDigits = fst (scan_digits buf (i + 1) False);
              j2 = snd (scan_digits buf (i + 1) False)
          in
          if buf ! i = 0x3B \<and> i + 1 < length buf \<and> hasDigits \<and> j2 < length buf \<and>
             (buf ! j2 = 0x52 \<or> buf ! j2 = 0x63)
          then filter_loop buf (j2 + 1) filtered
          else filter_loop buf (i + 1) (filtered @ [buf ! i]))"
  by pat_completeness auto
termination
proof (relation "measure (\<lambda>(buf, i, filtered). length buf - i)", goal_cases)
  case 1
  show ?case by simp
next
  case (2 buf i filtered csi j)
  then show ?case using scan_params_ge [of "i + 2" buf] by auto
next
  case (3 buf i filtered csi j)
  then show ?case using scan_params_ge [of "i + 2" buf] by auto
next
  case (4 buf i filtered csi j hasDigits j2)
  then show ?case using scan_digits_ge [of "i + 1" buf False] by auto
next
  case (5 buf i filtered csi j hasDigits j2)
  then show ?case by auto
qed

declare filter_loop.simps [simp del]

text \<open>
  \<^verbatim>\<open>Read(p)\<close>: \<open>plen\<close> is \<^verbatim>\<open>len(p)\<close> and \<open>src\<close> is what the wrapped reader has to
  deliver, of which it puts at most \<open>plen\<close> bytes into \<open>p\<close>. The result is the filter
  after the call and the bytes left in \<open>p\<close> for the caller. After the loop the source
  assigns \<^verbatim>\<open>tf.buffer = nil\<close> on every path, also after the \<^verbatim>\<open>break\<close> that kept
  the unterminated tail.
\<close>

definition Read :: "TerminalFilter \<Rightarrow> nat \<Rightarrow> byte list \<Rightarrow> TerminalFilter \<times> byte list" where
  "Read tf plen src =
     (let p = take plen src; n = length p in
      if n = 0 then (tf, [])
      else
        let buf = buffer tf @ p;
            filtered = fst (filter_loop buf 0 []);
            kept = snd (filter_loop buf 0 [])
        in (tf\<lparr>buffer := kept\<rparr>\<lparr>buffer := []\<rparr>, take plen filtered))"

section \<open>Package password: the encrypted store\<close>

type_synonym bytes = "byte list"

text \<open>The conversions \<^verbatim>\<open>[]byte(s)\<close> and \<^verbatim>\<open>string(b)\<close> between a Go string and its bytes.\<close>

definition bytes_of :: "string \<Rightarrow> bytes" where
  "bytes_of s = map (\<lambda>c. of_nat (of_char c)) s"

definition string_of :: "bytes \<Rightarrow> string" where
  "string_of b = map (\<lambda>w. char_of (unat w)) b"

definition saltSize :: nat where
  "saltSize = 32"

definition iterations :: nat where
  "iterations = 100000"

definition keySize :: nat where
  "keySize = 32"

text \<open>\<^verbatim>\<open>gcm.NonceSize()\<close> of the standard GCM mode built by \<^verbatim>\<open>cipher.NewGCM\<close>.\<close>

definition nonceSize :: nat where
  "nonceSize = 12"

record PasswordEntry =
  ID :: string
  Description :: string
  Password :: string

record PasswordStore =
  filePath :: string
  entries :: "string \<rightharpoonup> PasswordEntry"

text \<open>
  The library functions the package calls are parameters of the model:
  \<^item> \<open>pbkdf2_Key password salt iter keyLen\<close> is \<^verbatim>\<open>pbkdf2.Key\<close> with SHA-256;
  \<^item> \<open>gcm_new key\<close> tells whether \<^verbatim>\<open>aes.NewCipher\<close> and \<^verbatim>\<open>cipher.NewGCM\<close> accept the key;
  \<^item> \<open>gcm_Seal key nonce plaintext\<close> is the sealed text without the nonce, and
    \<open>gcm_Open key nonce ciphertext\<close> is \<^verbatim>\<open>gcm.Open\<close>, \<open>None\<close> when authentication fails;
  \<^item> \<open>base64_Encode\<close> and \<open>base64_Decode\<close> are those of \<^verbatim>\<open>base64.StdEncoding\<close>;
  \<^item> \<open>json_Marshal\<close> and \<open>json_Unmarshal\<close> are \<^verbatim>\<open>json.MarshalIndent\<close> and
    \<^verbatim>\<open>json.Unmarshal\<close> at the type of a list of entries;
  \<^item> \<open>json_text s\<close> tells whether JSON carries the string \<open>s\<close> unchanged (for
    \<^verbatim>\<open>encoding/json\<close>: whether it is valid UTF-8).
\<close>

record libs =
  pbkdf2_Key :: "bytes \<Rightarrow> bytes \<Rightarrow> nat \<Rightarrow> nat \<Rightarrow> bytes"
  gcm_new :: "bytes \<Rightarrow> bool"
  gcm_Seal :: "bytes \<Rightarrow> bytes \<Rightarrow> bytes \<Rightarrow> bytes"
  gcm_Open :: "bytes \<Rightarrow> bytes \<Rightarrow> bytes \<Rightarrow> bytes option"
  base64_Encode :: "bytes \<Rightarrow> string"
  base64_Decode :: "string \<Rightarrow> bytes option"
  json_Marshal :: "PasswordEntry list \<Rightarrow> bytes option"
  json_Unmarshal :: "bytes \<Rightarrow> PasswordEntry list option"
  json_text :: "string \<Rightarrow> bool"

text \<open>
  The part of the machine the package touches: the files by path, whether reading a
  present file, creating the directory and writing the file succeed, and the bytes that
  \<^verbatim>\<open>crypto/rand\<close> will deliver next. A failed write is taken to leave the file as
  it was.
\<close>

record world =
  files :: "string \<rightharpoonup> bytes"
  read_ok :: bool
  mkdir_ok :: bool
  write_ok :: bool
  rnd :: bytes

datatype crypt_error = CipherError | NonceError | CiphertextTooShort | OpenFailed

datatype store_error =
    GenerateSaltFailed
  | SaveInitialStoreFailed store_error
  | ReadStoreFailed
  | InvalidStoreFormat
  | DecryptFailed crypt_error
  | ParseStoreFailed
  | DecodePasswordFailed string
  | DecryptPasswordFailed string crypt_error
  | EncryptPasswordFailed string crypt_error
  | MarshalFailed
  | EncryptDataFailed crypt_error
  | CreateDirectoryFailed
  | WriteStoreFailed
  | AlreadyExists string
  | NotFound string
  | IncorrectOldPassword
  | SaveNewPasswordFailed store_error

text \<open>
  \<^verbatim>\<open>NewPasswordStore()\<close>; \<open>path\<close> is the path \<^verbatim>\<open>~/.go-ssh/passwords.enc\<close> that
  \<^verbatim>\<open>filepath.Join\<close> builds from the home directory.
\<close>

definition NewPasswordStore :: "string \<Rightarrow> PasswordStore" where
  "NewPasswordStore path = \<lparr>filePath = path, entries = Map.empty\<rparr>"

definition StoreExists :: "PasswordStore \<Rightarrow> world \<Rightarrow> bool" where
  "StoreExists ps w = (files w (filePath ps) \<noteq> None)"

datatype read_error = NotExist | ReadError

text \<open>\<^verbatim>\<open>os.ReadFile\<close>.\<close>

definition ReadFile :: "string \<Rightarrow> world \<Rightarrow> read_error + bytes" where
  "ReadFile path w =
     (case files w path of
        None \<Rightarrow> Inl NotExist
      | Some data \<Rightarrow> if read_ok w then Inr data else Inl ReadError)"

text \<open>
  Reading \<open>n\<close> bytes from \<^verbatim>\<open>crypto/rand\<close> (\<^verbatim>\<open>rand.Read\<close>, or \<^verbatim>\<open>io.ReadFull\<close> on
  \<^verbatim>\<open>rand.Reader\<close>); it fails when the source has fewer bytes left.
\<close>

definition rand_Read :: "nat \<Rightarrow> world \<Rightarrow> (bytes \<times> world) option" where
  "rand_Read n w =
     (if length (rnd w) < n then None
      else Some (take n (rnd w), w\<lparr>rnd := drop n (rnd w)\<rparr>))"

definition deriveMasterKey :: "libs \<Rightarrow> string \<Rightarrow> bytes \<Rightarrow> bytes" where
  "deriveMasterKey L masterPassword salt =
     pbkdf2_Key L (bytes_of masterPassword) salt iterations keySize"

text \<open>\<^verbatim>\<open>encrypt\<close>: the nonce is prepended to the sealed text.\<close>

definition encrypt :: "libs \<Rightarrow> bytes \<Rightarrow> bytes \<Rightarrow> world \<Rightarrow> (crypt_error + bytes) \<times> world" where
  "encrypt L plaintext key w =
     (if \<not> gcm_new L key then (Inl CipherError, w)
      else (case rand_Read nonceSize w of
              None \<Rightarrow> (Inl NonceError, w)
            | Some (nonce, w') \<Rightarrow> (Inr (nonce @ gcm_Seal L key nonce plaintext), w')))"

definition decrypt :: "libs \<Rightarrow> bytes \<Rightarrow> bytes \<Rightarrow> crypt_error + bytes" where
  "decrypt L ciphertext key =
     (if \<not> gcm_new L key then Inl CipherError
      else if length ciphertext < nonceSize then Inl CiphertextTooShort
      else (case gcm_Open L key (take nonceSize ciphertext) (drop nonceSize ciphertext) of
              None \<Rightarrow> Inl OpenFailed
            | Some plaintext \<Rightarrow> Inr plaintext))"

text \<open>
  The loop of \<^verbatim>\<open>Load\<close> and of \<^verbatim>\<open>ChangeMasterPassword\<close> that decodes and decrypts
  each password and fills the map; at an error it returns with the map as filled so far.
\<close>

fun decrypt_entries ::
  "libs \<Rightarrow> bytes \<Rightarrow> PasswordEntry list \<Rightarrow> (string \<rightharpoonup> PasswordEntry) \<Rightarrow>
   store_error option \<times> (string \<rightharpoonup> PasswordEntry)" where
  "decrypt_entries L key [] m = (None, m)"
| "decrypt_entries L key (entry # es) m =
     (case base64_Decode L (Password entry) of
        None \<Rightarrow> (Some (DecodePasswordFailed (ID entry)), m)
      | Some passwordBytes \<Rightarrow>
          (case decrypt L passwordBytes key of
             Inl c \<Rightarrow> (Some (DecryptPasswordFailed (ID entry) c), m)
           | Inr decryptedPassword \<Rightarrow>
               decrypt_entries L key es
                 (m(ID entry \<mapsto> entry\<lparr>Password := string_of decryptedPassword\<rparr>))))"

text \<open>\<^verbatim>\<open>Load(masterPassword)\<close>: the error, if any, and the store after the call.\<close>

definition Load :: "libs \<Rightarrow> string \<Rightarrow> PasswordStore \<Rightarrow> world \<Rightarrow> store_error option \<times> PasswordStore" where
  "Load L masterPassword ps w =
     (case ReadFile (filePath ps) w of
        Inl NotExist \<Rightarrow> (None, ps\<lparr>entries := Map.empty\<rparr>)
      | Inl ReadError \<Rightarrow> (Some ReadStoreFailed, ps)
      | Inr data \<Rightarrow>
          if length data < saltSize then (Some InvalidStoreFormat, ps)
          else
            let salt = take saltSize data;
                encryptedData = drop saltSize data;
                key = deriveMasterKey L masterPassword salt
            in (case decrypt L encryptedData key of
                  Inl c \<Rightarrow> (Some (DecryptFailed c), ps)
                | Inr decryptedData \<Rightarrow>
                    (case json_Unmarshal L decryptedData of
                       None \<Rightarrow> (Some ParseStoreFailed, ps)
                     | Some es \<Rightarrow>
                         (fst (decrypt_entries L key es Map.empty),
                          ps\<lparr>entries := snd (decrypt_entries L key es Map.empty)\<rparr>))))"

text \<open>
  The first part of \<^verbatim>\<open>Save\<close>: the salt given, else the salt of the existing file if
  it can be read and is long enough, else a fresh one.
\<close>

definition save_salt :: "bytes option \<Rightarrow> PasswordStore \<Rightarrow> world \<Rightarrow> bytes option \<times> world" where
  "save_salt salt ps w =
     (case salt of
        Some s \<Rightarrow> (Some s, w)
      | None \<Rightarrow>
          (let fromFile =
                 (if StoreExists ps w then
                    (case ReadFile (filePath ps) w of
                       Inr data \<Rightarrow> if length data \<ge> saltSize then Some (take saltSize data) else None
                     | Inl e \<Rightarrow> None)
                  else None)
           in (case fromFile of
                 Some s \<Rightarrow> (Some s, w)
               | None \<Rightarrow>
                   (case rand_Read saltSize w of
                      None \<Rightarrow> (None, w)
                    | Some (s, w') \<Rightarrow> (Some s, w')))))"

text \<open>
  The loop of \<^verbatim>\<open>Save\<close> over the map. Go leaves the order of a \<^verbatim>\<open>range\<close> over a map
  open; \<open>order\<close> is the order in which this run meets the keys. A key that is not in
  the map does not occur in a run and is passed over here.
\<close>

fun encrypt_entries ::
  "libs \<Rightarrow> bytes \<Rightarrow> (string \<rightharpoonup> PasswordEntry) \<Rightarrow> string list \<Rightarrow> world \<Rightarrow>
   (store_error + PasswordEntry list) \<times> world" where
  "encrypt_entries L key m [] w = (Inr [], w)"
| "encrypt_entries L key m (k # ks) w =
     (case m k of
        None \<Rightarrow> encrypt_entries L key m ks w
      | Some entry \<Rightarrow>
          (case encrypt L (bytes_of (Password entry)) key w of
             (Inl c, w') \<Rightarrow> (Inl (EncryptPasswordFailed (ID entry) c), w')
           | (Inr encryptedPassword, w') \<Rightarrow>
               (case encrypt_entries L key m ks w' of
                  (Inl e, w'') \<Rightarrow> (Inl e, w'')
                | (Inr rest, w'') \<Rightarrow>
                    (Inr (\<lparr>ID = ID entry, Description = Description entry,
                           Password = base64_Encode L encryptedPassword\<rparr> # rest), w''))))"

text \<open>\<^verbatim>\<open>Save(masterPassword, salt)\<close>: the error, if any, and the machine after the call.\<close>

definition Save ::
  "libs \<Rightarrow> string list \<Rightarrow> string \<Rightarrow> bytes option \<Rightarrow> PasswordStore \<Rightarrow> world \<Rightarrow>
   store_error option \<times> world" where
  "Save L order masterPassword salt0 ps w =
     (case save_salt salt0 ps w of
        (None, w1) \<Rightarrow> (Some GenerateSaltFailed, w1)
      | (Some salt, w1) \<Rightarrow>
          let key = deriveMasterKey L masterPassword salt in
          (case encrypt_entries L key (entries ps) order w1 of
             (Inl e, w2) \<Rightarrow> (Some e, w2)
           | (Inr entriesToSave, w2) \<Rightarrow>
               (case json_Marshal L entriesToSave of
                  None \<Rightarrow> (Some MarshalFailed, w2)
                | Some jsonData \<Rightarrow>
                    (case encrypt L jsonData key w2 of
                       (Inl c, w3) \<Rightarrow> (Some (EncryptDataFailed c), w3)
                     | (Inr encryptedData, w3) \<Rightarrow>
                         let finalData = salt @ encryptedData in
                         if \<not> mkdir_ok w3 then (Some CreateDirectoryFailed, w3)
                         else if \<not> write_ok w3 then (Some WriteStoreFailed, w3)
                         else (None, w3\<lparr>files := (files w3)(filePath ps \<mapsto> finalData)\<rparr>)))))"

text \<open>
  \<^verbatim>\<open>Initialize(masterPassword)\<close>. It makes no test for an existing file. The map it
  saves is empty, so the order of the loop in \<open>Save\<close> does not matter.
\<close>

definition Initialize ::
  "libs \<Rightarrow> string \<Rightarrow> PasswordStore \<Rightarrow> world \<Rightarrow> store_error option \<times> PasswordStore \<times> world" where
  "Initialize L masterPassword ps w =
     (case rand_Read saltSize w of
        None \<Rightarrow> (Some GenerateSaltFailed, ps, w)
      | Some (salt, w1) \<Rightarrow>
          let ps1 = ps\<lparr>entries := Map.empty\<rparr> in
          (case Save L [] masterPassword (Some salt) ps1 w1 of
             (Some e, w2) \<Rightarrow> (Some (SaveInitialStoreFailed e), ps1, w2)
           | (None, w2) \<Rightarrow> (None, ps1, w2)))"




subsection \<open>What is assumed of the libraries\<close>









subsection \<open>An instance of the library assumptions\<close>

text \<open>
  The assumptions above can be met. In this instance a key, and each string of an entry,
  is written byte by byte behind a marker \<open>1\<close> and closed by \<open>0\<close>; sealing puts the key
  so written in front of the plaintext, and opening checks for it. The instance says
  nothing of the real libraries: it shows that the assumptions are consistent and gives
  inputs on which the model runs.
\<close>

definition demo_tag :: "bytes \<Rightarrow> bytes" where
  "demo_tag k = concat (map (\<lambda>b. [1, b]) k) @ [0]"

fun demo_untag :: "bytes \<Rightarrow> bytes \<Rightarrow> bytes list option" where
  "demo_untag [] cur = (if cur = [] then Some [] else None)"
| "demo_untag [t] cur = (if t = 0 then Some [rev cur] else None)"
| "demo_untag (t # b # rest) cur =
     (if t = 0 then map_option ((#) (rev cur)) (demo_untag (b # rest) [])
      else if t = 1 then demo_untag rest (b # cur)
      else None)"

fun demo_group :: "bytes list \<Rightarrow> PasswordEntry list option" where
  "demo_group [] = Some []"
| "demo_group (a # b # c # r) =
     map_option ((#) \<lparr>ID = string_of a, Description = string_of b, Password = string_of c\<rparr>)
       (demo_group r)"
| "demo_group _ = None"

definition demo_marshal :: "PasswordEntry list \<Rightarrow> bytes" where
  "demo_marshal es =
     concat (map (\<lambda>e. demo_tag (bytes_of (ID e)) @ demo_tag (bytes_of (Description e)) @
                       demo_tag (bytes_of (Password e))) es)"

definition demo_unmarshal :: "bytes \<Rightarrow> PasswordEntry list option" where
  "demo_unmarshal b = (case demo_untag b [] of None \<Rightarrow> None | Some ss \<Rightarrow> demo_group ss)"

definition demo_libs :: libs where
  "demo_libs =
     \<lparr>pbkdf2_Key = (\<lambda>password salt iter keyLen. password @ salt),
      gcm_new = (\<lambda>key. True),
      gcm_Seal = (\<lambda>key nonce p. demo_tag key @ p),
      gcm_Open = (\<lambda>key nonce c.
        if prefix (demo_tag key) c then Some (drop (length (demo_tag key)) c) else None),
      base64_Encode = string_of,
      base64_Decode = (\<lambda>s. Some (bytes_of s)),
      json_Marshal = (\<lambda>es. Some (demo_marshal es)),
      json_Unmarshal = demo_unmarshal,
      json_text = (\<lambda>s. True)\<rparr>"

text \<open>A machine on which every operation succeeds, with the files given.\<close>

definition demo_world :: "(string \<rightharpoonup> bytes) \<Rightarrow> world" where
  "demo_world fs =
     \<lparr>files = fs, read_ok = True, mkdir_ok = True, write_ok = True, rnd = replicate 200 7\<rparr>"

text \<open>A store with one entry, and the machine after saving it under a password.\<close>

definition demo_store :: PasswordStore where
  "demo_store =
     \<lparr>filePath = ''p'',
      entries = [''db'' \<mapsto> \<lparr>ID = ''db'', Description = ''desc'', Password = ''secret1''\<rparr>]\<rparr>"

definition demo_saved :: "string \<Rightarrow> world" where
  "demo_saved pw = snd (Save demo_libs [''db''] pw None demo_store (demo_world Map.empty))"

section \<open>Package ssh: the interactive session\<close>
















section \<open>A reading of POSIX shell quoting\<close>



section \<open>Properties of the command chain\<close>

text \<open>
  Claim C4. The list \<^verbatim>\<open>["ssh jumphost@bastion", "sleep 2", "ssh user@internal-server"]\<close>
  is compiled to exactly
  \<^verbatim>\<open>ssh -tt jumphost@bastion 'sleep 2; exec ssh user@internal-server'\<close>:
  that string is echoed after \<^verbatim>\<open>Executing: \<close> and handed to \<^verbatim>\<open>ConnectWithExec\<close>.
\<close>

theorem ConnectWithCommands_jump_chain:
  "ConnectWithCommands exec_ok [''ssh jumphost@bastion'', ''sleep 2'', ''ssh user@internal-server''] =
     ([''Executing: ssh -tt jumphost@bastion '' @ [sq] @
         ''sleep 2; exec ssh user@internal-server'' @ [sq]],
      ConnectWithExec exec_ok
        (''ssh -tt jumphost@bastion '' @ [sq] @ ''sleep 2; exec ssh user@internal-server'' @ [sq]))"
  by (simp add: ConnectWithCommands_def firstSSHIndex_def remoteScript_def ensure_tt_def
      escapedScript_def ReplaceAll_def sq_def dq_def Let_def Replace.simps)

lemma firstSSHIndex_from_append:
  "\<forall>c \<in> set xs. \<not> Contains c ''ssh'' \<Longrightarrow> Contains y ''ssh'' \<Longrightarrow>
   firstSSHIndex_from (xs @ y # ys) i = i + int (length xs)"
  by (induction xs arbitrary: i) auto

text \<open>
  Claim C5. For a list of two or more entries in which no entry before the last contains
  \<^verbatim>\<open>ssh\<close> and the last one does, nothing is echoed and the last entry alone is handed
  to \<^verbatim>\<open>ConnectWithExec\<close>: the entries before it are not part of the command.
\<close>

theorem ConnectWithCommands_ssh_last:
  assumes "length commands > 1"
    and "\<forall>c \<in> set (butlast commands). \<not> Contains c ''ssh''"
    and "Contains (last commands) ''ssh''"
  shows "ConnectWithCommands exec_ok commands = ([], ConnectWithExec exec_ok (last commands))"
proof -
  from assms(1) have ne: "commands \<noteq> []" by auto
  then have split: "commands = butlast commands @ last commands # []" by simp
  have "firstSSHIndex commands = int (length (butlast commands))"
    unfolding firstSSHIndex_def
    using firstSSHIndex_from_append [OF assms(2) assms(3), of "[]" 0] split by simp
  then have idx: "firstSSHIndex commands = int (length commands) - 1"
    using ne by (simp add: Suc_leI)
  have nth: "commands ! nat (int (length commands) - 1) = last commands"
    using ne by (simp add: last_conv_nth nat_diff_distrib')
  show ?thesis
    using assms(1) ne idx nth by (simp add: ConnectWithCommands_def Let_def)
qed

theorem ConnectWithCommands_ssh_last_witness:
  "ConnectWithCommands True [''cd /tmp'', ''ls'', ''ssh host1''] = ([], Inr ''ssh host1'')"
  using ConnectWithCommands_ssh_last [of "[''cd /tmp'', ''ls'', ''ssh host1'']" True]
  by (simp add: ConnectWithExec_def)






section \<open>Properties of the output filter\<close>

lemma Read_buffer_empty:
  "take plen src \<noteq> [] \<Longrightarrow> buffer (fst (Read tf plen src)) = []"
  by (simp add: Read_def Let_def)

lemma filter_loop_csi_prefix:
  "filter_loop [0x1B, 0x5B, 0x33, 0x31] 0 [] = ([], [0x1B, 0x5B, 0x33, 0x31])"
  by (simp add: scan_params.simps is_param_def filter_loop.simps)

lemma filter_loop_m:
  "filter_loop [0x6D] 0 [] = ([0x6D], [0x6D])"
  by (simp add: scan_params.simps scan_digits.simps is_param_def filter_loop.simps)

lemma filter_loop_csi_whole:
  "filter_loop [0x1B, 0x5B, 0x33, 0x31, 0x6D] 0 [] =
     ([0x1B, 0x5B, 0x33, 0x31, 0x6D], [0x1B, 0x5B, 0x33, 0x31, 0x6D])"
  by (simp add: scan_params.simps scan_digits.simps is_param_def filter_loop.simps)

lemma filter_loop_dsr_prefix:
  "filter_loop [0x1B, 0x5B, 0x36] 0 [] = ([], [0x1B, 0x5B, 0x36])"
  by (simp add: scan_params.simps is_param_def filter_loop.simps)

lemma filter_loop_n:
  "filter_loop [0x6E] 0 [] = ([0x6E], [0x6E])"
  by (simp add: scan_params.simps scan_digits.simps is_param_def filter_loop.simps)

lemma filter_loop_dsr_whole:
  "filter_loop [0x1B, 0x5B, 0x36, 0x6E] 0 [] = ([], [0x1B, 0x5B, 0x36, 0x6E])"
  by (simp add: scan_params.simps scan_digits.simps is_param_def filter_loop.simps)

text \<open>
  A device status report ESC \<^verbatim>\<open>[6n\<close> is dropped when it comes in one read; split after
  the \<^verbatim>\<open>6\<close>, its last byte \<^verbatim>\<open>n\<close> reaches the screen.
\<close>

lemma Read_split_dsr_leaks_terminator:
  "Read \<lparr>buffer = []\<rparr> 4096 [0x1B, 0x5B, 0x36, 0x6E] = (\<lparr>buffer = []\<rparr>, []) \<and>
   Read \<lparr>buffer = []\<rparr> 4096 [0x1B, 0x5B, 0x36] = (\<lparr>buffer = []\<rparr>, []) \<and>
   Read \<lparr>buffer = []\<rparr> 4096 [0x6E] = (\<lparr>buffer = []\<rparr>, [0x6E])"
  by (simp add: Read_def Let_def filter_loop_dsr_prefix filter_loop_n filter_loop_dsr_whole)

text \<open>
  Claim C1 asks that a CSI sequence split over two reads be filtered as if it came in
  one. The source does not do so: the loop leaves with the unterminated prefix in
  \<^verbatim>\<open>tf.buffer\<close>, and the assignment after the loop clears it. With ESC \<^verbatim>\<open>[31\<close> in the
  first read and \<^verbatim>\<open>m\<close> in the second, the loop keeps the four bytes, the first
  \<open>Read\<close> returns nothing and an empty buffer, the second returns the lone \<^verbatim>\<open>m\<close>, while
  one read of the five bytes returns them unchanged.
\<close>

theorem Read_split_csi_drops_prefix:
  "filter_loop [0x1B, 0x5B, 0x33, 0x31] 0 [] = ([], [0x1B, 0x5B, 0x33, 0x31]) \<and>
   Read \<lparr>buffer = []\<rparr> 4096 [0x1B, 0x5B, 0x33, 0x31] = (\<lparr>buffer = []\<rparr>, []) \<and>
   Read (fst (Read \<lparr>buffer = []\<rparr> 4096 [0x1B, 0x5B, 0x33, 0x31])) 4096 [0x6D] =
     (\<lparr>buffer = []\<rparr>, [0x6D]) \<and>
   Read \<lparr>buffer = []\<rparr> 4096 [0x1B, 0x5B, 0x33, 0x31, 0x6D] =
     (\<lparr>buffer = []\<rparr>, [0x1B, 0x5B, 0x33, 0x31, 0x6D])"
proof -
  have first: "Read \<lparr>buffer = []\<rparr> 4096 [0x1B, 0x5B, 0x33, 0x31] = (\<lparr>buffer = []\<rparr>, [])"
    by (simp add: Read_def Let_def filter_loop_csi_prefix)
  have second: "Read \<lparr>buffer = []\<rparr> 4096 [0x6D] = (\<lparr>buffer = []\<rparr>, [0x6D])"
    by (simp add: Read_def Let_def filter_loop_m)
  have whole: "Read \<lparr>buffer = []\<rparr> 4096 [0x1B, 0x5B, 0x33, 0x31, 0x6D] =
      (\<lparr>buffer = []\<rparr>, [0x1B, 0x5B, 0x33, 0x31, 0x6D])"
    by (simp add: Read_def Let_def filter_loop_csi_whole)
  show ?thesis
    by (simp only: first second whole filter_loop_csi_prefix fst_conv simp_thms)
qed

section \<open>Properties of the encrypted store\<close>

subsection \<open>Saving and loading\<close>


lemma char_of_byte_of_char: "char_of (unat (of_nat (of_char c) :: byte)) = c"
  by (simp add: unsigned_of_nat take_bit_eq_mod)

lemma byte_of_char_of_byte: "(word_of_nat (unat w mod 256) :: byte) = w"
proof -
  have "unat w < 256" using unsigned_less [of w] by simp
  then show ?thesis by simp
qed

lemma string_of_bytes_of: "string_of (bytes_of s) = s"
  by (simp add: string_of_def bytes_of_def comp_def char_of_byte_of_char)

lemma bytes_of_string_of: "bytes_of (string_of b) = b"
  by (simp add: string_of_def bytes_of_def comp_def byte_of_char_of_byte)









subsection \<open>The instance meets the assumptions\<close>

lemma demo_untag_tag:
  "demo_untag (concat (map (\<lambda>b. [1, b]) k) @ 0 # rest) cur =
     map_option ((#) (rev cur @ k)) (demo_untag rest [])"
proof (induction k arbitrary: cur)
  case Nil
  show ?case by (cases rest) (simp_all add: option.map_ident)
next
  case (Cons x k)
  show ?case using Cons.IH [of "x # cur"] by simp
qed

lemma demo_untag_marshal:
  "demo_untag (demo_marshal es) [] =
     Some (concat (map (\<lambda>e. [bytes_of (ID e), bytes_of (Description e), bytes_of (Password e)]) es))"
proof (induction es)
  case Nil
  show ?case by (simp add: demo_marshal_def)
next
  case (Cons e es)
  have "demo_marshal (e # es) =
      concat (map (\<lambda>b. [1, b]) (bytes_of (ID e))) @ 0 #
      (concat (map (\<lambda>b. [1, b]) (bytes_of (Description e))) @ 0 #
       (concat (map (\<lambda>b. [1, b]) (bytes_of (Password e))) @ 0 # demo_marshal es))"
    by (simp add: demo_marshal_def demo_tag_def)
  then show ?case using Cons.IH by (simp add: demo_untag_tag)
qed

lemma demo_group_entries:
  "demo_group (concat (map (\<lambda>e. [bytes_of (ID e), bytes_of (Description e), bytes_of (Password e)]) es)) =
     Some es"
  by (induction es) (simp_all add: string_of_bytes_of)

lemma demo_unmarshal_marshal: "demo_unmarshal (demo_marshal es) = Some es"
  by (simp add: demo_unmarshal_def demo_untag_marshal demo_group_entries)







subsection \<open>Initialising a store\<close>

lemma Initialize_result:
  assumes "saltSize + nonceSize \<le> length (rnd w)"
    and "gcm_new L (deriveMasterKey L pw (take saltSize (rnd w)))"
    and "json_Marshal L [] = Some j"
    and "mkdir_ok w" and "write_ok w"
  shows "Initialize L pw ps w =
           (None, ps\<lparr>entries := Map.empty\<rparr>,
            w\<lparr>rnd := drop (saltSize + nonceSize) (rnd w),
              files := (files w)(filePath ps \<mapsto>
                take saltSize (rnd w) @ take nonceSize (drop saltSize (rnd w)) @
                gcm_Seal L (deriveMasterKey L pw (take saltSize (rnd w)))
                  (take nonceSize (drop saltSize (rnd w))) j)\<rparr>)"
  using assms
  by (simp add: Initialize_def Save_def save_salt_def encrypt_def rand_Read_def Let_def add.commute)

lemma demo_Initialize:
  "Initialize demo_libs pw (NewPasswordStore ''p'') (demo_world fs) =
     (None, NewPasswordStore ''p'',
      \<lparr>files = fs(''p'' \<mapsto> replicate 32 7 @ replicate 12 7 @ demo_tag (bytes_of pw @ replicate 32 7)),
       read_ok = True, mkdir_ok = True, write_ok = True, rnd = replicate 156 7\<rparr>)"
  by (subst Initialize_result [where j = "[]"])
     (simp_all add: demo_world_def saltSize_def nonceSize_def demo_libs_def demo_marshal_def
        NewPasswordStore_def deriveMasterKey_def)

text \<open>
  Claim C2 says that \<^verbatim>\<open>Initialize\<close> fails when a store file exists. It does not: it
  never looks for the file. Here a store made under one password is replaced by a second
  \<^verbatim>\<open>Initialize\<close> under another, which returns no error.
\<close>

theorem Initialize_existing_store_counterexample:
  "StoreExists (NewPasswordStore ''p'')
     (snd (snd (Initialize demo_libs ''first'' (NewPasswordStore ''p'') (demo_world Map.empty)))) \<and>
   fst (Initialize demo_libs ''second'' (NewPasswordStore ''p'')
     (snd (snd (Initialize demo_libs ''first'' (NewPasswordStore ''p'') (demo_world Map.empty))))) = None \<and>
   files (snd (snd (Initialize demo_libs ''second'' (NewPasswordStore ''p'')
     (snd (snd (Initialize demo_libs ''first'' (NewPasswordStore ''p'') (demo_world Map.empty))))))) ''p'' \<noteq>
   files (snd (snd (Initialize demo_libs ''first'' (NewPasswordStore ''p'') (demo_world Map.empty)))) ''p''"
proof -
  let ?w1 = "\<lparr>files = [''p'' \<mapsto> replicate 32 7 @ replicate 12 7 @ demo_tag (bytes_of ''first'' @ replicate 32 7)],
              read_ok = True, mkdir_ok = True, write_ok = True, rnd = replicate 156 7\<rparr>"
  have first: "snd (snd (Initialize demo_libs ''first'' (NewPasswordStore ''p'') (demo_world Map.empty))) = ?w1"
    by (simp add: demo_Initialize)
  have second: "Initialize demo_libs ''second'' (NewPasswordStore ''p'') ?w1 =
      (None, NewPasswordStore ''p'',
       ?w1\<lparr>rnd := drop (saltSize + nonceSize) (rnd ?w1),
           files := (files ?w1)(''p'' \<mapsto>
             take saltSize (rnd ?w1) @ take nonceSize (drop saltSize (rnd ?w1)) @
             gcm_Seal demo_libs (deriveMasterKey demo_libs ''second'' (take saltSize (rnd ?w1)))
               (take nonceSize (drop saltSize (rnd ?w1))) [])\<rparr>)"
    by (subst Initialize_result [where j = "[]"])
       (simp_all add: saltSize_def nonceSize_def demo_libs_def demo_marshal_def NewPasswordStore_def)
  have differ: "demo_tag (bytes_of ''second'' @ replicate 32 7) \<noteq>
      demo_tag (bytes_of ''first'' @ replicate 32 7)"
    by (simp add: demo_tag_def bytes_of_def)
  show ?thesis
    unfolding first second
    using differ
    by (simp add: StoreExists_def NewPasswordStore_def saltSize_def nonceSize_def demo_libs_def
        deriveMasterKey_def)
qed

text \<open>
  Claim C2, amended. \<^verbatim>\<open>Initialize\<close> makes no test for an existing store. Whenever the
  random source has the bytes for a salt and a nonce, the derived key is accepted, JSON
  encodes the empty list and the directory and the file can be written, it returns no
  error, leaves the entry set empty and writes the store at the path, whatever was there
  before: the fresh salt (the next \<open>saltSize\<close> random bytes), the nonce and the sealed
  encoding of the empty list.
\<close>

theorem Initialize_persists_empty_store:
  assumes "saltSize + nonceSize \<le> length (rnd w)"
    and "gcm_new L (deriveMasterKey L pw (take saltSize (rnd w)))"
    and "json_Marshal L [] = Some j"
    and "mkdir_ok w" and "write_ok w"
  shows "Initialize L pw ps w =
           (None, ps\<lparr>entries := Map.empty\<rparr>,
            w\<lparr>rnd := drop (saltSize + nonceSize) (rnd w),
              files := (files w)(filePath ps \<mapsto>
                take saltSize (rnd w) @ take nonceSize (drop saltSize (rnd w)) @
                gcm_Seal L (deriveMasterKey L pw (take saltSize (rnd w)))
                  (take nonceSize (drop saltSize (rnd w))) j)\<rparr>)"
  using assms by (rule Initialize_result)

theorem Initialize_persists_empty_store_witness:
  "Initialize demo_libs ''pw'' (NewPasswordStore ''p'') (demo_world [''p'' \<mapsto> [1, 2, 3]]) =
     (None, NewPasswordStore ''p'',
      \<lparr>files = [''p'' \<mapsto> replicate 32 7 @ replicate 12 7 @ demo_tag (bytes_of ''pw'' @ replicate 32 7)],
       read_ok = True, mkdir_ok = True, write_ok = True, rnd = replicate 156 7\<rparr>)"
  using Initialize_persists_empty_store
    [of "demo_world [''p'' \<mapsto> [1, 2, 3]]" demo_libs "''pw''" "[]" "NewPasswordStore ''p''"]
  by (simp add: demo_world_def saltSize_def nonceSize_def demo_libs_def demo_marshal_def
      NewPasswordStore_def deriveMasterKey_def)

subsection \<open>The round trip through the file\<close>




subsection \<open>Loading under a wrong password\<close>





subsection \<open>Changing the master password\<close>










lemma demo_saved_eq:
  "demo_saved pw =
     \<lparr>files = [''p'' \<mapsto>
        replicate 32 7 @ replicate 12 7 @ demo_tag (bytes_of pw @ replicate 32 7) @
        demo_marshal
          [\<lparr>ID = ''db'', Description = ''desc'',
            Password = string_of (replicate 12 7 @ demo_tag (bytes_of pw @ replicate 32 7) @
                                  bytes_of ''secret1'')\<rparr>]],
      read_ok = True, mkdir_ok = True, write_ok = True, rnd = replicate 144 7\<rparr>"
  by (simp add: demo_saved_def demo_store_def Save_def save_salt_def StoreExists_def ReadFile_def
      encrypt_def rand_Read_def Let_def saltSize_def nonceSize_def demo_libs_def demo_world_def
      deriveMasterKey_def)

lemma demo_Load_saved:
  "Load demo_libs pw (NewPasswordStore ''p'') (demo_saved pw) = (None, demo_store)"
  by (simp add: demo_saved_eq Load_def ReadFile_def decrypt_def Let_def saltSize_def nonceSize_def
      demo_libs_def deriveMasterKey_def demo_unmarshal_marshal bytes_of_string_of
      string_of_bytes_of NewPasswordStore_def demo_store_def)





section \<open>Properties of the directives and of the interactive session\<close>


















end
